theory Spec2Isabelle
  imports Main "HOL-Library.Word"
begin

section \<open>Strings of the client: UTF-16 code units\<close>

text \<open>
  A JavaScript string is a sequence of 16-bit code units; \<^verbatim>\<open>value.length\<close> counts
  them, and \<^verbatim>\<open>trim\<close> and the regular expressions of \<^verbatim>\<open>src/App.jsx\<close> (written without
  the \<^verbatim>\<open>u\<close> flag) work on code units as well.
\<close>

type_synonym cu = "16 word"
type_synonym jsstring = "cu list"

text \<open>The code units of an ASCII literal of the source.\<close>

definition js :: "string \<Rightarrow> jsstring" where
  "js s = map of_char s"

text \<open>
  The white space of ECMAScript (WhiteSpace and LineTerminator): what
  \<^verbatim>\<open>String.prototype.trim\<close> strips and what \<^verbatim>\<open>\s\<close> matches in a regular expression.
  TAB, LF, VT, FF, CR, SP, NBSP, the Unicode space separators, LS, PS and the BOM.
\<close>

definition is_ws :: "cu \<Rightarrow> bool" where
  "is_ws c = (c \<in> set [0x9, 0xA, 0xB, 0xC, 0xD, 0x20, 0xA0, 0x1680,
      0x2000, 0x2001, 0x2002, 0x2003, 0x2004, 0x2005, 0x2006, 0x2007, 0x2008, 0x2009, 0x200A,
      0x2028, 0x2029, 0x202F, 0x205F, 0x3000, 0xFEFF])"

text \<open>\<^verbatim>\<open>value.trim()\<close>: the string without its leading and trailing white space.\<close>

definition trim :: "jsstring \<Rightarrow> jsstring" where
  "trim s = rev (dropWhile is_ws (rev (dropWhile is_ws s)))"

text \<open>
  A number inside a template literal, \<^verbatim>\<open>${min}\<close>, is printed by the runtime
  (\<^verbatim>\<open>Number::toString\<close>). The validators below take that printing as a parameter and
  say nothing about the digits it produces. \<open>decimal\<close> writes an integer with all its
  decimal digits, which is what the runtime prints for the integers of magnitude up to
  \<open>2^53\<close> (above, the runtime rounds, and from \<open>10^21\<close> it uses exponent form); it is
  only used to run the validators on small bounds.
\<close>

definition digit_cu :: "nat \<Rightarrow> cu" where
  "digit_cu d = of_nat (48 + d)"

function dec_nat :: "nat \<Rightarrow> jsstring" where
  "dec_nat n = (if n < 10 then [digit_cu n] else dec_nat (n div 10) @ [digit_cu (n mod 10)])"
  by pat_completeness auto
termination
  by (relation "measure (\<lambda>n. n)") auto

definition decimal :: "int \<Rightarrow> jsstring" where
  "decimal i = (if i < 0 then js ''-'' @ dec_nat (nat (- i)) else dec_nat (nat i))"

section \<open>Regular expressions of the validators\<close>

text \<open>
  The two patterns of the source, \<^verbatim>\<open>/^[^\s@]+@[^\s@]+\.[^\s@]+$/\<close> and
  \<^verbatim>\<open>/^[a-zA-Z0-9_]{3,20}$/\<close>, are anchored at both ends and are sequences of
  quantified single-character atoms. The pattern is kept as data and
  \<open>rx_test\<close> is \<^verbatim>\<open>RegExp.prototype.test\<close> on such a pattern: without the \<^verbatim>\<open>m\<close>
  flag \<^verbatim>\<open>^\<close> and \<^verbatim>\<open>$\<close> are the two ends of the input, so the whole string has to
  be consumed. The matcher tries every admissible repetition count of a piece, as
  backtracking does.
\<close>

datatype cls_item = Ch cu | Range cu cu | Space

datatype atom = Lit cu | Class bool "cls_item list"

datatype piece = Piece atom nat "nat option"

fun item_ok :: "cls_item \<Rightarrow> cu \<Rightarrow> bool" where
  "item_ok (Ch d) c = (c = d)"
| "item_ok (Range lo hi) c = (lo \<le> c \<and> c \<le> hi)"
| "item_ok Space c = is_ws c"

text \<open>\<open>Class True items\<close> is the negated class \<^verbatim>\<open>[^...]\<close>.\<close>

fun atom_ok :: "atom \<Rightarrow> cu \<Rightarrow> bool" where
  "atom_ok (Lit d) c = (c = d)"
| "atom_ok (Class neg items) c = (list_ex (\<lambda>i. item_ok i c) items \<noteq> neg)"

fun rx_test :: "piece list \<Rightarrow> jsstring \<Rightarrow> bool" where
  "rx_test [] s = (s = [])"
| "rx_test (Piece a lo hi # ps) s =
     (let avail = length (takeWhile (atom_ok a) s);
          top = (case hi of None \<Rightarrow> avail | Some h \<Rightarrow> min h avail)
      in list_ex (\<lambda>k. rx_test ps (drop k s)) [lo ..< Suc top])"

text \<open>\<^verbatim>\<open>[^\s@]\<close>\<close>

definition not_space_at :: atom where
  "not_space_at = Class True [Space, Ch (of_char CHR ''@'')]"

text \<open>\<^verbatim>\<open>/^[^\s@]+@[^\s@]+\.[^\s@]+$/\<close>\<close>

definition emailRegex :: "piece list" where
  "emailRegex =
     [Piece not_space_at 1 None, Piece (Lit (of_char CHR ''@'')) 1 (Some 1),
      Piece not_space_at 1 None, Piece (Lit (of_char CHR ''.'')) 1 (Some 1),
      Piece not_space_at 1 None]"

text \<open>\<^verbatim>\<open>[a-zA-Z0-9_]\<close>\<close>

definition word_class :: atom where
  "word_class = Class False
     [Range (of_char CHR ''a'') (of_char CHR ''z''), Range (of_char CHR ''A'') (of_char CHR ''Z''),
      Range (of_char CHR ''0'') (of_char CHR ''9''), Ch (of_char CHR ''_'')]"

text \<open>\<^verbatim>\<open>/^[a-zA-Z0-9_]{3,20}$/\<close>\<close>

definition usernameRegex :: "piece list" where
  "usernameRegex = [Piece word_class 3 (Some 20)]"

section \<open>Form Validator\<close>

text \<open>
  Each validator returns \<^verbatim>\<open>null\<close> (\<open>None\<close>) or an error string. The values validated are
  the strings of the form state. \<^verbatim>\<open>fieldName = 'Field'\<close> is a default parameter: the
  argument is \<open>None\<close> when the caller leaves it out. A length bound is an integer, and
  \<open>print\<close> is the runtime's printing of numbers, applied to the bound by the template
  literal of the message.
\<close>

definition field_name :: "jsstring option \<Rightarrow> jsstring" where
  "field_name fieldName = (case fieldName of None \<Rightarrow> js ''Field'' | Some n \<Rightarrow> n)"

text \<open>\<^verbatim>\<open>!value || value.trim() === ''\<close>: the empty string is the one falsy string.\<close>

definition required :: "jsstring \<Rightarrow> jsstring option \<Rightarrow> jsstring option" where
  "required v fieldName =
     (if v = [] \<or> trim v = [] then Some (field_name fieldName @ js '' is required'') else None)"

definition minLength ::
  "(int \<Rightarrow> jsstring) \<Rightarrow> jsstring \<Rightarrow> int \<Rightarrow> jsstring option \<Rightarrow> jsstring option" where
  "minLength print v mn fieldName =
     (if int (length v) < mn
      then Some (field_name fieldName @ js '' must be at least '' @ print mn @ js '' characters'')
      else None)"

definition maxLength ::
  "(int \<Rightarrow> jsstring) \<Rightarrow> jsstring \<Rightarrow> int \<Rightarrow> jsstring option \<Rightarrow> jsstring option" where
  "maxLength print v mx fieldName =
     (if int (length v) > mx
      then Some (field_name fieldName @ js '' must be less than '' @ print mx @ js '' characters'')
      else None)"

definition email :: "jsstring \<Rightarrow> jsstring option" where
  "email v = (if \<not> rx_test emailRegex v then Some (js ''Please enter a valid email address'') else None)"

definition username :: "jsstring \<Rightarrow> jsstring option" where
  "username v =
     (if \<not> rx_test usernameRegex v
      then Some (js ''Username must be 3-20 characters (letters, numbers, underscore only)'')
      else None)"

definition password :: "jsstring \<Rightarrow> jsstring option" where
  "password v = (if length v < 6 then Some (js ''Password must be at least 6 characters'') else None)"

section \<open>Values of the runtime\<close>

text \<open>
  The payloads are what \<^verbatim>\<open>res.json()\<close> parses, and \<^verbatim>\<open>undefined\<close> is what reading a
  missing property gives. A number is kept as the text the runtime prints for it
  (\<^verbatim>\<open>Number::toString\<close>): zero prints as \<^verbatim>\<open>0\<close>, and two numbers other than \<^verbatim>\<open>NaN\<close> are
  equal exactly when they print the same. \<open>Obj\<close> lists the own properties of an
  object, each key once.
\<close>

datatype jsval =
    Undefined
  | Null
  | Bool bool
  | Num jsstring
  | Str jsstring
  | Arr "jsval list"
  | Obj "(jsstring \<times> jsval) list"

text \<open>
  The errors a handler can see: \<^verbatim>\<open>new Error(message)\<close> of the API client, and the
  \<^verbatim>\<open>TypeError\<close> and \<^verbatim>\<open>SyntaxError\<close> the runtime throws (their messages are the
  engine's own and are not tracked).
\<close>

datatype js_error = Error jsstring | TypeError | SyntaxError

definition nullish :: "jsval \<Rightarrow> bool" where
  "nullish v = (v = Undefined \<or> v = Null)"

text \<open>\<^verbatim>\<open>ToBoolean\<close>, as \<^verbatim>\<open>if (x)\<close>, \<^verbatim>\<open>!x\<close> and \<^verbatim>\<open>x || y\<close> apply it.\<close>

fun truthy :: "jsval \<Rightarrow> bool" where
  "truthy Undefined = False"
| "truthy Null = False"
| "truthy (Bool b) = b"
| "truthy (Num n) = (n \<noteq> js ''0'' \<and> n \<noteq> js ''NaN'')"
| "truthy (Str s) = (s \<noteq> [])"
| "truthy (Arr xs) = True"
| "truthy (Obj kvs) = True"

text \<open>
  \<^verbatim>\<open>x.key\<close> for the payload keys the source reads (\<^verbatim>\<open>error\<close>, \<^verbatim>\<open>user\<close>, \<^verbatim>\<open>posts\<close>,
  \<^verbatim>\<open>likes\<close>, \<^verbatim>\<open>id\<close>, \<^verbatim>\<open>userId\<close>), none of which a prototype defines: reading from
  \<^verbatim>\<open>null\<close> or \<^verbatim>\<open>undefined\<close> throws, an object gives its own property, and every
  other value gives \<^verbatim>\<open>undefined\<close>.
\<close>

fun get_prop :: "jsval \<Rightarrow> jsstring \<Rightarrow> js_error + jsval" where
  "get_prop Undefined k = Inl TypeError"
| "get_prop Null k = Inl TypeError"
| "get_prop (Obj kvs) k = Inr (case map_of kvs k of None \<Rightarrow> Undefined | Some v \<Rightarrow> v)"
| "get_prop v k = Inr Undefined"

text \<open>Optional chaining, \<^verbatim>\<open>x?.key\<close>.\<close>

definition opt_prop :: "jsval \<Rightarrow> jsstring \<Rightarrow> js_error + jsval" where
  "opt_prop v k = (if nullish v then Inr Undefined else get_prop v k)"

text \<open>
  \<^verbatim>\<open>a === b\<close>. Objects and arrays are compared by reference, and two values taken
  from separately parsed payloads are never the same object.
\<close>

fun strict_eq :: "jsval \<Rightarrow> jsval \<Rightarrow> bool" where
  "strict_eq Undefined Undefined = True"
| "strict_eq Null Null = True"
| "strict_eq (Bool a) (Bool b) = (a = b)"
| "strict_eq (Num a) (Num b) = (a = b \<and> a \<noteq> js ''NaN'')"
| "strict_eq (Str a) (Str b) = (a = b)"
| "strict_eq a b = False"

text \<open>
  \<^verbatim>\<open>ToString\<close>, as a template literal and \<^verbatim>\<open>new Error(x)\<close> apply it. An array joins
  its elements with commas, \<^verbatim>\<open>null\<close> and \<^verbatim>\<open>undefined\<close> elements printing as nothing;
  a parsed object prints as \<^verbatim>\<open>[object Object]\<close> unless an own \<^verbatim>\<open>toString\<close> property
  (not callable, coming from JSON) hides the inherited method, and then the
  conversion throws.
\<close>

fun to_string :: "jsval \<Rightarrow> js_error + jsstring"
  and join_elems :: "jsval list \<Rightarrow> js_error + jsstring" where
  "to_string Undefined = Inr (js ''undefined'')"
| "to_string Null = Inr (js ''null'')"
| "to_string (Bool b) = Inr (if b then js ''true'' else js ''false'')"
| "to_string (Num n) = Inr n"
| "to_string (Str s) = Inr s"
| "to_string (Arr xs) = join_elems xs"
| "to_string (Obj kvs) =
     (if map_of kvs (js ''toString'') \<noteq> None then Inl TypeError else Inr (js ''[object Object]''))"
| "join_elems [] = Inr []"
| "join_elems (x # xs) =
     (case (if nullish x then Inr [] else to_string x) of
        Inl e \<Rightarrow> Inl e
      | Inr s \<Rightarrow>
          (if xs = [] then Inr s
           else (case join_elems xs of Inl e \<Rightarrow> Inl e | Inr t \<Rightarrow> Inr (s @ js '','' @ t))))"

section \<open>API Client\<close>

text \<open>
  A request as \<^verbatim>\<open>fetch\<close> receives it: the endpoint appended to \<^verbatim>\<open>API_BASE\<close>, the
  method (\<^verbatim>\<open>GET\<close> when the options name none), whether credentials are included,
  the \<^verbatim>\<open>Content-Type\<close> header when one is set and the body. \<open>JsonText v\<close> is the
  text \<^verbatim>\<open>JSON.stringify\<close> makes of \<open>v\<close>; \<open>FormData\<close> lists the appended entries.
\<close>

datatype http_method = GET | POST | DELETE | PATCH

datatype payload = JsonText jsval | FormData "(jsstring \<times> jsstring) list"

record request =
  endpoint :: jsstring
  http_method :: http_method
  credentials_include :: bool
  content_type :: "jsstring option"
  payload :: "payload option"

text \<open>
  What comes back. \<^verbatim>\<open>fetch\<close> rejects (a \<^verbatim>\<open>TypeError\<close>) when the network fails;
  otherwise it resolves with a response whose \<^verbatim>\<open>ok\<close> flag tells a success status
  and whose body \<^verbatim>\<open>res.json()\<close> either parses or rejects with a \<^verbatim>\<open>SyntaxError\<close>.
\<close>

datatype body = Malformed | Parsed jsval

datatype response = NetworkFailure | Response bool body

text \<open>
  The remote service answers the last request of the history of requests sent so
  far; the history is the part of the world the handlers change.
\<close>

type_synonym server = "request list \<Rightarrow> response"

definition send :: "server \<Rightarrow> request \<Rightarrow> request list \<Rightarrow> response \<times> request list" where
  "send srv rq hist = (srv (hist @ [rq]), hist @ [rq])"

text \<open>
  The options object of a call: \<^verbatim>\<open>{ method, body }\<close>, each possibly absent. No call
  of the source passes \<^verbatim>\<open>headers\<close>, so the header \<^verbatim>\<open>api.fetch\<close> sets is the only one;
  the body is the value \<^verbatim>\<open>JSON.stringify\<close> is applied to.
\<close>

record options =
  opt_method :: "http_method option"
  opt_body :: "jsval option"

definition no_options :: options where
  "no_options = \<lparr>opt_method = None, opt_body = None\<rparr>"

text \<open>
  \<^verbatim>\<open>api.fetch(endpoint, options)\<close>. On a status that is not a success the body is
  parsed, a body that does not parse being replaced by \<^verbatim>\<open>{ error: 'Request failed' }\<close>,
  and \<^verbatim>\<open>new Error(error.error || 'Request failed')\<close> is thrown.
\<close>

definition fetch_request :: "jsstring \<Rightarrow> options \<Rightarrow> request" where
  "fetch_request ep opts =
     \<lparr>endpoint = ep,
      http_method = (case opt_method opts of None \<Rightarrow> GET | Some m \<Rightarrow> m),
      credentials_include = True,
      content_type = Some (js ''application/json''),
      payload = map_option JsonText (opt_body opts)\<rparr>"

definition api_fetch ::
  "server \<Rightarrow> jsstring \<Rightarrow> options \<Rightarrow> request list \<Rightarrow> (js_error + jsval) \<times> request list" where
  "api_fetch srv ep opts hist =
     (let (res, hist') = send srv (fetch_request ep opts) hist
      in (case res of
            NetworkFailure \<Rightarrow> Inl TypeError
          | Response ok b \<Rightarrow>
              (if \<not> ok then
                 (let error = (case b of
                                 Malformed \<Rightarrow> Obj [(js ''error'', Str (js ''Request failed''))]
                               | Parsed v \<Rightarrow> v)
                  in case get_prop error (js ''error'') of
                       Inl e \<Rightarrow> Inl e
                     | Inr m \<Rightarrow>
                         (case to_string (if truthy m then m else Str (js ''Request failed'')) of
                            Inl e \<Rightarrow> Inl e
                          | Inr msg \<Rightarrow> Inl (Error msg)))
               else (case b of Malformed \<Rightarrow> Inl SyntaxError | Parsed v \<Rightarrow> Inr v)),
          hist'))"

text \<open>\<^verbatim>\<open>api.uploadFile(endpoint, formData)\<close>: no content type, a fixed message on failure.\<close>

definition upload_request :: "jsstring \<Rightarrow> (jsstring \<times> jsstring) list \<Rightarrow> request" where
  "upload_request ep formData =
     \<lparr>endpoint = ep, http_method = POST, credentials_include = True,
      content_type = None, payload = Some (FormData formData)\<rparr>"

definition uploadFile ::
  "server \<Rightarrow> jsstring \<Rightarrow> (jsstring \<times> jsstring) list \<Rightarrow> request list
     \<Rightarrow> (js_error + jsval) \<times> request list" where
  "uploadFile srv ep formData hist =
     (let (res, hist') = send srv (upload_request ep formData) hist
      in (case res of
            NetworkFailure \<Rightarrow> Inl TypeError
          | Response ok b \<Rightarrow>
              (if \<not> ok then Inl (Error (js ''Upload failed''))
               else (case b of Malformed \<Rightarrow> Inl SyntaxError | Parsed v \<Rightarrow> Inr v)),
          hist'))"

text \<open>A service that gives the same answer to every request.\<close>

definition always :: "response \<Rightarrow> server" where
  "always r hist = r"

text \<open>A response the client takes as a success: a success status and a body that parses.\<close>

definition accepted :: "response \<Rightarrow> bool" where
  "accepted r = (case r of Response ok (Parsed v) \<Rightarrow> ok | _ \<Rightarrow> False)"

section \<open>Session Store (AuthProvider)\<close>

text \<open>
  The two state cells of the provider, initially \<^verbatim>\<open>null\<close> and \<^verbatim>\<open>true\<close>. Each
  operation takes the session and the request history and returns them updated; an
  operation that can reject also returns its outcome.
\<close>

record session =
  user :: jsval
  loading :: bool

definition initial_session :: session where
  "initial_session = \<lparr>user = Null, loading = True\<rparr>"

definition checkAuth :: "server \<Rightarrow> session \<times> request list \<Rightarrow> session \<times> request list" where
  "checkAuth srv = (\<lambda>(s, hist).
     (let (r, hist') = api_fetch srv (js ''/auth/me'') no_options hist;
          s' = (case r of
                  Inl e \<Rightarrow> s\<lparr>user := Null\<rparr>
                | Inr data \<Rightarrow>
                    (case get_prop data (js ''user'') of
                       Inl e \<Rightarrow> s\<lparr>user := Null\<rparr>
                     | Inr u \<Rightarrow> s\<lparr>user := u\<rparr>))
      in (s'\<lparr>loading := False\<rparr>, hist')))"

text \<open>\<^verbatim>\<open>{ method: 'POST', body: JSON.stringify({ username, password }) }\<close>\<close>

definition login_options :: "jsstring \<Rightarrow> jsstring \<Rightarrow> options" where
  "login_options uname pw =
     \<lparr>opt_method = Some POST,
      opt_body = Some (Obj [(js ''username'', Str uname), (js ''password'', Str pw)])\<rparr>"

definition login ::
  "server \<Rightarrow> jsstring \<Rightarrow> jsstring \<Rightarrow> session \<times> request list
     \<Rightarrow> (js_error + jsval) \<times> session \<times> request list" where
  "login srv uname pw = (\<lambda>(s, hist).
     (let (r, hist') = api_fetch srv (js ''/auth/login'') (login_options uname pw) hist
      in (case r of
            Inl e \<Rightarrow> (Inl e, s, hist')
          | Inr data \<Rightarrow>
              (case get_prop data (js ''user'') of
                 Inl e \<Rightarrow> (Inl e, s, hist')
               | Inr u \<Rightarrow> (Inr data, s\<lparr>user := u\<rparr>, hist')))))"

definition signup ::
  "server \<Rightarrow> jsstring \<Rightarrow> jsstring \<Rightarrow> jsstring \<Rightarrow> jsstring \<Rightarrow> session \<times> request list
     \<Rightarrow> (js_error + jsval) \<times> session \<times> request list" where
  "signup srv uname mail pw nm = (\<lambda>(s, hist).
     (let (r, hist') =
            api_fetch srv (js ''/auth/register'')
              \<lparr>opt_method = Some POST,
               opt_body = Some (Obj [(js ''username'', Str uname), (js ''email'', Str mail),
                                     (js ''password'', Str pw), (js ''name'', Str nm)])\<rparr> hist
      in (case r of
            Inl e \<Rightarrow> (Inl e, s, hist')
          | Inr data \<Rightarrow>
              (case get_prop data (js ''user'') of
                 Inl e \<Rightarrow> (Inl e, s, hist')
               | Inr u \<Rightarrow> (Inr data, s\<lparr>user := u\<rparr>, hist')))))"

text \<open>
  \<^verbatim>\<open>await api.fetch('/auth/logout', { method: 'POST' }); setUser(null);\<close> with no
  \<^verbatim>\<open>try\<close> around the call: when the call rejects, the assignment is not reached.
\<close>

definition method_only :: "http_method \<Rightarrow> options" where
  "method_only m = \<lparr>opt_method = Some m, opt_body = None\<rparr>"

definition logout ::
  "server \<Rightarrow> session \<times> request list \<Rightarrow> (js_error + unit) \<times> session \<times> request list" where
  "logout srv = (\<lambda>(s, hist).
     (let (r, hist') = api_fetch srv (js ''/auth/logout'') (method_only POST) hist
      in (case r of
            Inl e \<Rightarrow> (Inl e, s, hist')
          | Inr data \<Rightarrow> (Inr (), s\<lparr>user := Null\<rparr>, hist'))))"

text \<open>
  The screen \<^verbatim>\<open>AppContent\<close> shows: the session is anonymous when it is not loading
  and the user is falsy; the identity is unset when the user is \<^verbatim>\<open>null\<close>.
\<close>

definition anonymous :: "session \<Rightarrow> bool" where
  "anonymous s = (\<not> loading s \<and> \<not> truthy (user s))"

section \<open>Sign-in page: validate\<close>

text \<open>
  The form state, the mode (\<^verbatim>\<open>'login'\<close> or \<^verbatim>\<open>'signup'\<close>, the only values
  \<^verbatim>\<open>setMode\<close> is called with), and the \<^verbatim>\<open>newErrors\<close> object as the list of its
  properties in the order they are assigned.
\<close>

record formData =
  fd_username :: jsstring
  fd_email :: jsstring
  fd_password :: jsstring
  fd_name :: jsstring

datatype mode = Login | Signup

type_synonym errors = "(string \<times> jsstring) list"

text \<open>
  Truthiness of a validator result, as \<^verbatim>\<open>a || b\<close> and \<^verbatim>\<open>if (e)\<close> test it: \<^verbatim>\<open>null\<close>
  and the empty string are falsy, every other string counts as an error.
\<close>

definition is_error :: "jsstring option \<Rightarrow> bool" where
  "is_error r = (case r of None \<Rightarrow> False | Some m \<Rightarrow> m \<noteq> [])"

definition or_else :: "jsstring option \<Rightarrow> jsstring option \<Rightarrow> jsstring option" where
  "or_else a b = (if is_error a then a else b)"

text \<open>\<^verbatim>\<open>if (e) newErrors.key = e;\<close> for a key not assigned before.\<close>

definition assign_if :: "string \<Rightarrow> jsstring option \<Rightarrow> errors \<Rightarrow> errors" where
  "assign_if key e errs =
     (case e of None \<Rightarrow> errs | Some msg \<Rightarrow> (if is_error e then errs @ [(key, msg)] else errs))"

text \<open>
  \<^verbatim>\<open>validate()\<close> returns the errors it stores with \<^verbatim>\<open>setErrors\<close> and
  \<^verbatim>\<open>Object.keys(newErrors).length === 0\<close>.
\<close>

definition validate :: "mode \<Rightarrow> formData \<Rightarrow> errors \<times> bool" where
  "validate m fd =
     (let usernameError =
            or_else (required (fd_username fd) (Some (js ''Username''))) (username (fd_username fd));
          e1 = assign_if ''username'' usernameError [];
          passwordError =
            or_else (required (fd_password fd) (Some (js ''Password''))) (password (fd_password fd));
          e2 = assign_if ''password'' passwordError e1;
          e3 = (if m = Signup then
                  (let nameError = required (fd_name fd) (Some (js ''Name''));
                       e2a = assign_if ''name'' nameError e2;
                       emailError =
                         or_else (required (fd_email fd) (Some (js ''Email''))) (email (fd_email fd))
                   in assign_if ''email'' emailError e2a)
                else e2)
      in (e3, length e3 = 0))"

section \<open>Post: the like toggle\<close>

text \<open>
  The callback of \<^verbatim>\<open>some\<close>:
  \<^verbatim>\<open>like.user?.id === user.id || like.userId === user.id\<close>, evaluated left to right.
\<close>

definition like_by :: "jsval \<Rightarrow> jsval \<Rightarrow> js_error + bool" where
  "like_by usr like =
     (case get_prop like (js ''user'') of
        Inl e \<Rightarrow> Inl e
      | Inr lu \<Rightarrow>
          (case opt_prop lu (js ''id'') of
             Inl e \<Rightarrow> Inl e
           | Inr lid \<Rightarrow>
               (case get_prop usr (js ''id'') of
                  Inl e \<Rightarrow> Inl e
                | Inr uid \<Rightarrow>
                    (if strict_eq lid uid then Inr True
                     else (case get_prop like (js ''userId'') of
                             Inl e \<Rightarrow> Inl e
                           | Inr luid \<Rightarrow> Inr (strict_eq luid uid))))))"

text \<open>\<^verbatim>\<open>Array.prototype.some\<close>: in order, stopping at the first entry the callback accepts.\<close>

fun some_like :: "jsval \<Rightarrow> jsval list \<Rightarrow> js_error + bool" where
  "some_like usr [] = Inr False"
| "some_like usr (l # ls) =
     (case like_by usr l of
        Inl e \<Rightarrow> Inl e
      | Inr b \<Rightarrow> (if b then Inr True else some_like usr ls))"

text \<open>
  \<^verbatim>\<open>const isLiked = post.likes?.some(...)\<close>, computed when the post renders:
  \<^verbatim>\<open>undefined\<close> when the post has no like collection, a \<^verbatim>\<open>TypeError\<close> when the
  collection is not an array (it has no \<^verbatim>\<open>some\<close> to call).
\<close>

definition isLiked :: "jsval \<Rightarrow> jsval \<Rightarrow> js_error + jsval" where
  "isLiked post usr =
     (case get_prop post (js ''likes'') of
        Inl e \<Rightarrow> Inl e
      | Inr likes \<Rightarrow>
          (if nullish likes then Inr Undefined
           else (case likes of
                   Arr ls \<Rightarrow> (case some_like usr ls of Inl e \<Rightarrow> Inl e | Inr b \<Rightarrow> Inr (Bool b))
                 | _ \<Rightarrow> Inl TypeError)))"


section \<open>Feed page: composing a post\<close>

record feed =
  posts :: jsval
  newPost :: jsstring
  feed_loading :: bool

definition initial_feed :: feed where
  "initial_feed = \<lparr>posts = Arr [], newPost = [], feed_loading = False\<rparr>"

text \<open>\<^verbatim>\<open>loadFeed\<close>: a failure, also of reading \<^verbatim>\<open>data.posts\<close>, is only logged.\<close>

definition loadFeed :: "server \<Rightarrow> feed \<times> request list \<Rightarrow> feed \<times> request list" where
  "loadFeed srv = (\<lambda>(f, hist).
     (let (r, hist') = api_fetch srv (js ''/posts/feed'') no_options hist
      in (case r of
            Inl e \<Rightarrow> (f, hist')
          | Inr data \<Rightarrow>
              (case get_prop data (js ''posts'') of
                 Inl e \<Rightarrow> (f, hist')
               | Inr ps \<Rightarrow> (f\<lparr>posts := ps\<rparr>, hist')))))"

text \<open>\<^verbatim>\<open>{ method: 'POST', body: JSON.stringify({ content: newPost }) }\<close>\<close>

definition post_options :: "jsstring \<Rightarrow> options" where
  "post_options content = \<lparr>opt_method = Some POST, opt_body = Some (Obj [(js ''content'', Str content)])\<rparr>"

text \<open>
  \<^verbatim>\<open>handleCreatePost\<close>: \<^verbatim>\<open>if (!newPost.trim()) return;\<close> comes before anything else
  but \<^verbatim>\<open>e.preventDefault()\<close>, which touches neither the feed nor the network.
\<close>

definition handleCreatePost :: "server \<Rightarrow> feed \<times> request list \<Rightarrow> feed \<times> request list" where
  "handleCreatePost srv = (\<lambda>(f, hist).
     (if trim (newPost f) = [] then (f, hist)
      else
        (let f1 = f\<lparr>feed_loading := True\<rparr>;
             (r, hist1) = api_fetch srv (js ''/posts'') (post_options (newPost f)) hist
         in (case r of
               Inl e \<Rightarrow> (f1\<lparr>feed_loading := False\<rparr>, hist1)
             | Inr data \<Rightarrow>
                 (let (f2, hist2) = loadFeed srv (f1\<lparr>newPost := []\<rparr>, hist1)
                  in (f2\<lparr>feed_loading := False\<rparr>, hist2))))))"

section \<open>Notions the properties are stated with\<close>

text \<open>
  The composition rule in the spec's words: of two validator results the first that
  is an error wins.
\<close>

definition first_error :: "jsstring option \<Rightarrow> jsstring option \<Rightarrow> jsstring option" where
  "first_error a b = (case a of Some e \<Rightarrow> Some e | None \<Rightarrow> b)"

text \<open>A validator result for which being truthy and being an error is the same.\<close>

definition proper :: "jsstring option \<Rightarrow> bool" where
  "proper e = (is_error e \<longleftrightarrow> e \<noteq> None)"

text \<open>The username format in the spec's words: 3 to 20 characters, each a letter, a digit or an underscore.\<close>

definition is_letter :: "cu \<Rightarrow> bool" where
  "is_letter c = ((of_char CHR ''a'' \<le> c \<and> c \<le> of_char CHR ''z'')
                  \<or> (of_char CHR ''A'' \<le> c \<and> c \<le> of_char CHR ''Z''))"

definition is_digit :: "cu \<Rightarrow> bool" where
  "is_digit c = (of_char CHR ''0'' \<le> c \<and> c \<le> of_char CHR ''9'')"

definition spec_username_ok :: "jsstring \<Rightarrow> bool" where
  "spec_username_ok v =
     (3 \<le> length v \<and> length v \<le> 20
      \<and> list_all (\<lambda>c. is_letter c \<or> is_digit c \<or> c = of_char CHR ''_'') v)"

text \<open>
  The spec's words for the like check, for a viewer id \<open>uid\<close>: the entry has a nested
  user reference whose id equals it, or a direct user-id field that equals it.
\<close>

definition own_field :: "jsval \<Rightarrow> jsstring \<Rightarrow> jsval option" where
  "own_field v k = (case v of Obj kvs \<Rightarrow> map_of kvs k | _ \<Rightarrow> None)"



section \<open>Validators: presence, username format, maximum length\<close>

lemma all_dropWhile: "(\<forall>x\<in>set (dropWhile P xs). P x) \<longleftrightarrow> (\<forall>x\<in>set xs. P x)"
  by (induction xs) auto

lemma trim_empty_iff: "trim s = [] \<longleftrightarrow> (\<forall>c\<in>set s. is_ws c)"
  unfolding trim_def by (simp add: dropWhile_eq_Nil_conv all_dropWhile)

text \<open>
  C7. For every input string, \<open>required\<close> returns the error \<^verbatim>\<open>"<field> is required"\<close>
  when the string is empty or holds white space only, and returns no error as soon
  as the string holds one character that is not white space.
\<close>

theorem required_blank:
  "required v fieldName =
     (if (\<forall>c\<in>set v. is_ws c) then Some (field_name fieldName @ js '' is required'') else None)"
  unfolding required_def using trim_empty_iff [of v] by auto

theorem required_blank_witness:
  "required [] None = Some (js ''Field is required'')
   \<and> required [0x20, 0x9, 0x3000] (Some (js ''Name'')) = Some (js ''Name is required'')
   \<and> required (js '' a '') (Some (js ''Name'')) = None"
  using required_blank [of "[]" None] required_blank [of "[0x20, 0x9, 0x3000]" "Some (js ''Name'')"]
    required_blank [of "js '' a ''" "Some (js ''Name'')"]
  by (simp add: is_ws_def js_def field_name_def)

lemma takeWhile_full: "length (takeWhile P xs) = length xs \<longleftrightarrow> (\<forall>x\<in>set xs. P x)"
  by (induction xs) auto

lemma word_class_spec:
  "atom_ok word_class c \<longleftrightarrow> (is_letter c \<or> is_digit c \<or> c = of_char CHR ''_'')"
  by (auto simp: word_class_def is_letter_def is_digit_def)

lemma rx_username: "rx_test usernameRegex v \<longleftrightarrow> spec_username_ok v"
proof -
  let ?n = "length (takeWhile (atom_ok word_class) v)"
  have le: "?n \<le> length v" by (rule length_takeWhile_le)
  have "rx_test usernameRegex v \<longleftrightarrow> (\<exists>k\<in>set [3 ..< Suc (min 20 ?n)]. length v \<le> k)"
    by (simp add: usernameRegex_def list_ex_iff Let_def)
  also have "\<dots> \<longleftrightarrow> (3 \<le> length v \<and> length v \<le> 20 \<and> ?n = length v)"
  proof
    assume "3 \<le> length v \<and> length v \<le> 20 \<and> ?n = length v"
    then have "length v \<in> set [3 ..< Suc (min 20 ?n)]" by simp
    then show "\<exists>k\<in>set [3 ..< Suc (min 20 ?n)]. length v \<le> k" by blast
  next
    assume "\<exists>k\<in>set [3 ..< Suc (min 20 ?n)]. length v \<le> k"
    then obtain k where "k \<in> set [3 ..< Suc (min 20 ?n)]" and "length v \<le> k" by blast
    then show "3 \<le> length v \<and> length v \<le> 20 \<and> ?n = length v" using le by auto
  qed
  also have "\<dots> \<longleftrightarrow> spec_username_ok v"
    by (simp add: takeWhile_full spec_username_ok_def list_all_iff word_class_spec)
  finally show ?thesis .
qed

text \<open>
  C8. \<open>username\<close> accepts exactly the strings of 3 to 20 characters that are letters,
  digits or underscores: it rejects \<^verbatim>\<open>"ab"\<close>, accepts \<^verbatim>\<open>"valid_user1"\<close> and rejects
  \<^verbatim>\<open>"bad name!"\<close>.
\<close>

theorem username_format:
  "(username v = None \<longleftrightarrow> spec_username_ok v)
   \<and> username (js ''ab'') \<noteq> None
   \<and> username (js ''valid_user1'') = None
   \<and> username (js ''bad name!'') \<noteq> None"
proof -
  have a: "username v = None \<longleftrightarrow> spec_username_ok v" for v
    by (simp add: username_def rx_username)
  have "\<not> spec_username_ok (js ''ab'')"
    by (simp add: spec_username_ok_def js_def)
  moreover have "spec_username_ok (js ''valid_user1'')"
    by (simp add: spec_username_ok_def js_def is_letter_def is_digit_def)
  moreover have "\<not> spec_username_ok (js ''bad name!'')"
    by (simp add: spec_username_ok_def js_def is_letter_def is_digit_def)
  ultimately show ?thesis using a by blast
qed

theorem username_format_witness:
  "username (js ''abc'') = None
   \<and> username (js ''abcdefghij0123456789'') = None
   \<and> username (js ''abcdefghij0123456789_'') \<noteq> None"
  using username_format [of "js ''abc''"] username_format [of "js ''abcdefghij0123456789''"]
    username_format [of "js ''abcdefghij0123456789_''"]
  by (simp add: spec_username_ok_def js_def is_letter_def is_digit_def)

text \<open>
  C10. A string whose length is exactly the bound passes \<open>maxLength\<close>: the error, whose
  message reads \<^verbatim>\<open>"must be less than"\<close> the bound as the runtime prints it, is returned
  only for strings strictly longer than the bound.
\<close>

theorem maxLength_at_bound:
  "maxLength print v (int (length v)) fieldName = None
   \<and> maxLength print v mx fieldName =
       (if mx < int (length v)
        then Some (field_name fieldName @ js '' must be less than '' @ print mx @ js '' characters'')
        else None)"
  by (simp add: maxLength_def)

theorem maxLength_at_bound_witness:
  "maxLength decimal (js ''abc'') 3 (Some (js ''Bio'')) = None
   \<and> maxLength decimal (js ''abcd'') 3 (Some (js ''Bio'')) = Some (js ''Bio must be less than 3 characters'')"
  using maxLength_at_bound [of decimal "js ''abc''" "Some (js ''Bio'')" 3]
    maxLength_at_bound [of decimal "js ''abcd''" "Some (js ''Bio'')" 3]
  by (simp add: js_def field_name_def decimal_def digit_cu_def)

section \<open>Sign-in page: order of the validators and the two modes\<close>

lemma is_error_required: "is_error (required v n) \<longleftrightarrow> required v n \<noteq> None"
  by (simp add: is_error_def required_def js_def)

lemma is_error_username: "is_error (username v) \<longleftrightarrow> username v \<noteq> None"
  by (simp add: is_error_def username_def js_def)

lemma is_error_password: "is_error (password v) \<longleftrightarrow> password v \<noteq> None"
  by (simp add: is_error_def password_def js_def)

lemma is_error_email: "is_error (email v) \<longleftrightarrow> email v \<noteq> None"
  by (simp add: is_error_def email_def js_def)

lemma or_else_required: "or_else (required v n) b = first_error (required v n) b"
  using is_error_required [of v n]
  by (auto simp: or_else_def first_error_def split: option.splits)

lemma map_of_assign_if:
  "proper e \<Longrightarrow> map_of (assign_if k e errs) k' =
     (case map_of errs k' of Some x \<Rightarrow> Some x | None \<Rightarrow> (if k' = k then e else None))"
  by (auto simp: proper_def assign_if_def map_of_append map_add_def split: option.splits)

lemma assign_if_Nil_iff: "proper e \<Longrightarrow> assign_if k e errs = [] \<longleftrightarrow> errs = [] \<and> e = None"
  by (auto simp: proper_def assign_if_def)

lemma proper_required: "proper (required v n)"
  by (simp add: proper_def is_error_required)

lemma proper_first_error:
  "proper b \<Longrightarrow> proper (first_error (required v n) b)"
  using is_error_required [of v n]
  by (auto simp: proper_def first_error_def split: option.splits)

lemma proper_username: "proper (first_error (required v n) (username v))"
  by (rule proper_first_error) (simp add: proper_def is_error_username)

lemma proper_password: "proper (first_error (required v n) (password v))"
  by (rule proper_first_error) (simp add: proper_def is_error_password)

lemma proper_email: "proper (first_error (required v n) (email v))"
  by (rule proper_first_error) (simp add: proper_def is_error_email)

lemmas proper_fields = proper_required proper_username proper_password proper_email

lemma validate_Login:
  "fst (validate Login fd) =
     assign_if ''password''
       (first_error (required (fd_password fd) (Some (js ''Password''))) (password (fd_password fd)))
       (assign_if ''username''
          (first_error (required (fd_username fd) (Some (js ''Username''))) (username (fd_username fd)))
          [])"
  by (simp add: validate_def Let_def or_else_required)

lemma validate_Signup:
  "fst (validate Signup fd) =
     assign_if ''email''
       (first_error (required (fd_email fd) (Some (js ''Email''))) (email (fd_email fd)))
       (assign_if ''name'' (required (fd_name fd) (Some (js ''Name'')))
          (fst (validate Login fd)))"
  by (simp add: validate_def Let_def or_else_required)

lemma validate_snd: "snd (validate m fd) \<longleftrightarrow> fst (validate m fd) = []"
  by (simp add: validate_def Let_def)

lemma errors_Login:
  "map_of (fst (validate Login fd)) k =
     (if k = ''username''
      then first_error (required (fd_username fd) (Some (js ''Username''))) (username (fd_username fd))
      else if k = ''password''
      then first_error (required (fd_password fd) (Some (js ''Password''))) (password (fd_password fd))
      else None)"
  by (simp add: validate_Login map_of_assign_if proper_fields split: option.splits)

lemma errors_Signup:
  "map_of (fst (validate Signup fd)) k =
     (if k = ''username''
      then first_error (required (fd_username fd) (Some (js ''Username''))) (username (fd_username fd))
      else if k = ''password''
      then first_error (required (fd_password fd) (Some (js ''Password''))) (password (fd_password fd))
      else if k = ''name'' then required (fd_name fd) (Some (js ''Name''))
      else if k = ''email''
      then first_error (required (fd_email fd) (Some (js ''Email''))) (email (fd_email fd))
      else None)"
  by (simp add: validate_Signup map_of_assign_if proper_fields errors_Login split: option.splits)

lemma first_error_None: "first_error a b = None \<longleftrightarrow> a = None \<and> b = None"
  by (simp add: first_error_def split: option.splits)

lemma valid_Login:
  "snd (validate Login fd) \<longleftrightarrow>
     required (fd_username fd) (Some (js ''Username'')) = None \<and> username (fd_username fd) = None
     \<and> required (fd_password fd) (Some (js ''Password'')) = None \<and> password (fd_password fd) = None"
  by (auto simp: validate_snd validate_Login assign_if_Nil_iff proper_fields first_error_None)

lemma valid_Signup:
  "snd (validate Signup fd) \<longleftrightarrow>
     snd (validate Login fd)
     \<and> required (fd_name fd) (Some (js ''Name'')) = None
     \<and> required (fd_email fd) (Some (js ''Email'')) = None \<and> email (fd_email fd) = None"
  by (auto simp: validate_snd validate_Signup assign_if_Nil_iff proper_fields first_error_None)





text \<open>
  C6. Validation depends on the mode. In sign-in mode only the username and the
  password are validated: no error is ever reported for the name or the email,
  whatever their values, and the form is valid exactly when the username and
  password checks pass. In sign-up mode the name (required) and the email (required,
  then its format) are validated as well, in addition to the same username and
  password checks.
\<close>

theorem validate_mode_dependent:
  "map_of (fst (validate Login fd)) ''name'' = None
   \<and> map_of (fst (validate Login fd)) ''email'' = None
   \<and> validate Login (fd\<lparr>fd_name := nm, fd_email := em\<rparr>) = validate Login fd
   \<and> (snd (validate Login fd) \<longleftrightarrow>
        required (fd_username fd) (Some (js ''Username'')) = None \<and> username (fd_username fd) = None
        \<and> required (fd_password fd) (Some (js ''Password'')) = None \<and> password (fd_password fd) = None)
   \<and> map_of (fst (validate Signup fd)) ''name'' = required (fd_name fd) (Some (js ''Name''))
   \<and> map_of (fst (validate Signup fd)) ''email'' =
        first_error (required (fd_email fd) (Some (js ''Email''))) (email (fd_email fd))
   \<and> map_of (fst (validate Signup fd)) ''username'' = map_of (fst (validate Login fd)) ''username''
   \<and> map_of (fst (validate Signup fd)) ''password'' = map_of (fst (validate Login fd)) ''password''
   \<and> (snd (validate Signup fd) \<longleftrightarrow>
        snd (validate Login fd)
        \<and> required (fd_name fd) (Some (js ''Name'')) = None
        \<and> required (fd_email fd) (Some (js ''Email'')) = None \<and> email (fd_email fd) = None)"
proof -
  have "validate Login (fd\<lparr>fd_name := nm, fd_email := em\<rparr>) = validate Login fd"
    by (simp add: validate_def)
  then show ?thesis
    using valid_Login [of fd] valid_Signup [of fd]
    by (simp add: errors_Login errors_Signup)
qed

theorem validate_mode_dependent_witness:
  "validate Login \<lparr>fd_username = js ''alice_1'', fd_email = js ''junk'', fd_password = js ''secret1'', fd_name = []\<rparr>
     = ([], True)
   \<and> validate Signup \<lparr>fd_username = js ''alice_1'', fd_email = js ''junk'', fd_password = js ''secret1'', fd_name = []\<rparr>
     = ([(''name'', js ''Name is required''), (''email'', js ''Please enter a valid email address'')], False)"
  using validate_mode_dependent
    [of "\<lparr>fd_username = js ''alice_1'', fd_email = js ''junk'', fd_password = js ''secret1'', fd_name = []\<rparr>" "[]" "js ''junk''"]
  by (simp add: validate_def or_else_def assign_if_def is_error_def js_def is_ws_def password_def
      username_def usernameRegex_def word_class_def
      email_def emailRegex_def not_space_at_def required_def trim_def field_name_def)

section \<open>API Client: what a failure carries\<close>

lemma api_fetch_history: "snd (api_fetch srv ep opts hist) = hist @ [fetch_request ep opts]"
  by (simp add: api_fetch_def send_def Let_def)

lemma api_fetch_Inr:
  "fst (api_fetch srv ep opts hist) = Inr v \<longleftrightarrow>
     srv (hist @ [fetch_request ep opts]) = Response True (Parsed v)"
  by (auto simp: api_fetch_def send_def Let_def split: response.splits body.splits sum.splits)

lemma api_fetch_accepted:
  "(\<exists>v. fst (api_fetch srv ep opts hist) = Inr v) \<longleftrightarrow> accepted (srv (hist @ [fetch_request ep opts]))"
  unfolding api_fetch_Inr by (auto simp: accepted_def split: response.splits body.splits)

lemma api_fetch_rejected:
  "(\<exists>e. fst (api_fetch srv ep opts hist) = Inl e) \<longleftrightarrow> \<not> accepted (srv (hist @ [fetch_request ep opts]))"
  using api_fetch_accepted [of srv ep opts hist]
  by (cases "fst (api_fetch srv ep opts hist)") auto

lemma api_fetch_not_ok:
  "srv (hist @ [fetch_request ep opts]) = Response False b \<Longrightarrow>
   fst (api_fetch srv ep opts hist) =
     (case get_prop (case b of Malformed \<Rightarrow> Obj [(js ''error'', Str (js ''Request failed''))] | Parsed v \<Rightarrow> v)
             (js ''error'') of
        Inl e \<Rightarrow> Inl e
      | Inr m \<Rightarrow>
          (case to_string (if truthy m then m else Str (js ''Request failed'')) of
             Inl e \<Rightarrow> Inl e
           | Inr msg \<Rightarrow> Inl (Error msg)))"
  by (simp add: api_fetch_def send_def Let_def)

lemma uploadFile_not_ok:
  "srv (hist @ [upload_request ep fd]) = Response False b \<Longrightarrow>
   fst (uploadFile srv ep fd hist) = Inl (Error (js ''Upload failed''))"
  by (simp add: uploadFile_def send_def Let_def)

text \<open>
  C4 as stated fails for the binary upload, which never reads the error body: a
  rejected upload whose body is \<^verbatim>\<open>{ "error": "File too large" }\<close> fails with the fixed
  message \<^verbatim>\<open>Upload failed\<close>. And not every failure of the JSON request is an
  \<open>Error\<close> with a message of the client: an error body that parses to \<^verbatim>\<open>null\<close> makes
  reading its \<^verbatim>\<open>error\<close> field throw a \<^verbatim>\<open>TypeError\<close>.
\<close>

theorem uploadFile_ignores_error_body:
  "fst (uploadFile (always (Response False (Parsed (Obj [(js ''error'', Str (js ''File too large''))]))))
         (js ''/users/me/photo'') [(js ''photo'', js ''avatar.png'')] [])
     = Inl (Error (js ''Upload failed''))
   \<and> Error (js ''Upload failed'') \<noteq> Error (js ''File too large'')
   \<and> fst (api_fetch (always (Response False (Parsed Null))) (js ''/posts'') no_options [])
       = Inl TypeError"
  by (simp add: uploadFile_def api_fetch_def send_def always_def js_def Let_def)

lemma to_string_TypeError:
  "to_string v = Inl e \<Longrightarrow> e = TypeError"
  "join_elems vs = Inl e \<Longrightarrow> e = TypeError"
  by (induction v and vs arbitrary: e and e rule: to_string_join_elems.induct)
    (auto split: if_splits sum.splits)

lemma get_prop_TypeError: "get_prop v k = Inl e \<longleftrightarrow> nullish v \<and> e = TypeError"
  by (cases v) (auto simp: nullish_def)

text \<open>
  C4, amended. On every status that is not a success both operations fail.
  \<open>api_fetch\<close> fails with an \<open>Error\<close> whose message is \<^verbatim>\<open>Request failed\<close> when the body
  does not parse, the \<^verbatim>\<open>error\<close> field of the parsed body converted to a string when
  that field is truthy (a non-empty string field is the message itself), and
  \<^verbatim>\<open>Request failed\<close> again when the field is absent or falsy; the only other outcome is
  a \<^verbatim>\<open>TypeError\<close>, when the body parses to \<^verbatim>\<open>null\<close> or the field cannot be converted
  to a string. \<open>uploadFile\<close> does not read the body: it fails with an \<open>Error\<close> whose
  message is always \<^verbatim>\<open>Upload failed\<close>.
\<close>

theorem client_failure_messages:
  "(srv (hist @ [fetch_request ep opts]) = Response False b \<longrightarrow>
      ((\<exists>msg. fst (api_fetch srv ep opts hist) = Inl (Error msg))
         \<or> fst (api_fetch srv ep opts hist) = Inl TypeError)
      \<and> (b = Malformed \<longrightarrow> fst (api_fetch srv ep opts hist) = Inl (Error (js ''Request failed'')))
      \<and> (\<forall>v m. b = Parsed v \<and> get_prop v (js ''error'') = Inr (Str m) \<and> m \<noteq> []
            \<longrightarrow> fst (api_fetch srv ep opts hist) = Inl (Error m))
      \<and> (\<forall>v m msg. b = Parsed v \<and> get_prop v (js ''error'') = Inr m \<and> truthy m
               \<and> to_string m = Inr msg
            \<longrightarrow> fst (api_fetch srv ep opts hist) = Inl (Error msg))
      \<and> (\<forall>v m. b = Parsed v \<and> get_prop v (js ''error'') = Inr m \<and> \<not> truthy m
            \<longrightarrow> fst (api_fetch srv ep opts hist) = Inl (Error (js ''Request failed'')))
      \<and> (\<forall>v. b = Parsed v \<and> nullish v \<longrightarrow> fst (api_fetch srv ep opts hist) = Inl TypeError)
      \<and> (\<forall>v m e. b = Parsed v \<and> get_prop v (js ''error'') = Inr m \<and> truthy m
               \<and> to_string m = Inl e
            \<longrightarrow> fst (api_fetch srv ep opts hist) = Inl TypeError))
   \<and> (srv (hist @ [upload_request ep' fd]) = Response False b' \<longrightarrow>
        fst (uploadFile srv ep' fd hist) = Inl (Error (js ''Upload failed'')))"
proof -
  note eq = api_fetch_not_ok [of srv hist ep opts]
  have fetch: "((\<exists>msg. fst (api_fetch srv ep opts hist) = Inl (Error msg))
         \<or> fst (api_fetch srv ep opts hist) = Inl TypeError)"
    if "srv (hist @ [fetch_request ep opts]) = Response False b"
    using to_string_TypeError(1) get_prop_TypeError
    by (auto simp: eq [OF that] split: sum.splits body.splits)
  have nul: "fst (api_fetch srv ep opts hist) = Inl TypeError"
    if "srv (hist @ [fetch_request ep opts]) = Response False (Parsed v)" and "nullish v" for v
    using that(2) by (auto simp: eq [OF that(1)] nullish_def)
  have unprintable: "fst (api_fetch srv ep opts hist) = Inl TypeError"
    if "srv (hist @ [fetch_request ep opts]) = Response False (Parsed v)"
      and "get_prop v (js ''error'') = Inr m" and "truthy m" and "to_string m = Inl e" for v m e
    using that(2,3,4) to_string_TypeError(1) [OF that(4)]
    by (simp add: eq [OF that(1)])
  show ?thesis
    using fetch nul unprintable by (auto simp: api_fetch_not_ok uploadFile_not_ok)
qed

theorem client_failure_messages_witness:
  "fst (api_fetch (always (Response False (Parsed (Obj [(js ''error'', Str (js ''File too large''))]))))
         (js ''/posts'') no_options []) = Inl (Error (js ''File too large''))
   \<and> fst (api_fetch (always (Response False Malformed)) (js ''/posts'') no_options [])
       = Inl (Error (js ''Request failed''))
   \<and> fst (api_fetch (always (Response False (Parsed (Obj [(js ''status'', Num (js ''500''))]))))
         (js ''/posts'') no_options []) = Inl (Error (js ''Request failed''))
   \<and> fst (api_fetch (always (Response False (Parsed (Obj [(js ''error'', Num (js ''404''))]))))
         (js ''/posts'') no_options []) = Inl (Error (js ''404''))
   \<and> fst (api_fetch (always (Response False (Parsed Null))) (js ''/posts'') no_options [])
       = Inl TypeError
   \<and> fst (uploadFile (always (Response False (Parsed (Obj [(js ''error'', Str (js ''File too large''))]))))
         (js ''/users/me/photo'') [(js ''photo'', js ''avatar.png'')] []) = Inl (Error (js ''Upload failed''))"
  using client_failure_messages [of "always (Response False (Parsed (Obj [(js ''error'', Str (js ''File too large''))])))"
      "[]" "js ''/posts''" no_options "Parsed (Obj [(js ''error'', Str (js ''File too large''))])"
      "js ''/users/me/photo''" "[(js ''photo'', js ''avatar.png'')]" "Parsed (Obj [(js ''error'', Str (js ''File too large''))])"]
    client_failure_messages [of "always (Response False Malformed)"
      "[]" "js ''/posts''" no_options "Malformed"
      "js ''/users/me/photo''" "[(js ''photo'', js ''avatar.png'')]" "Malformed"]
    client_failure_messages [of "always (Response False (Parsed (Obj [(js ''status'', Num (js ''500''))])))"
      "[]" "js ''/posts''" no_options "Parsed (Obj [(js ''status'', Num (js ''500''))])"
      "js ''/users/me/photo''" "[(js ''photo'', js ''avatar.png'')]" "Parsed (Obj [(js ''status'', Num (js ''500''))])"]
    client_failure_messages [of "always (Response False (Parsed (Obj [(js ''error'', Num (js ''404''))])))"
      "[]" "js ''/posts''" no_options "Parsed (Obj [(js ''error'', Num (js ''404''))])"
      "js ''/users/me/photo''" "[(js ''photo'', js ''avatar.png'')]" "Parsed (Obj [(js ''error'', Num (js ''404''))])"]
    client_failure_messages [of "always (Response False (Parsed Null))"
      "[]" "js ''/posts''" no_options "Parsed Null"
      "js ''/users/me/photo''" "[(js ''photo'', js ''avatar.png'')]" "Parsed Null"]
  by (simp add: always_def js_def nullish_def)

section \<open>Session Store: logout and login\<close>

lemma logout_unfold:
  "logout srv (s, hist) =
     (case fst (api_fetch srv (js ''/auth/logout'') (method_only POST) hist) of
        Inl e \<Rightarrow> (Inl e, s, hist @ [fetch_request (js ''/auth/logout'') (method_only POST)])
      | Inr data \<Rightarrow> (Inr (), s\<lparr>user := Null\<rparr>, hist @ [fetch_request (js ''/auth/logout'') (method_only POST)]))"
  using api_fetch_history [of srv "js ''/auth/logout''" "method_only POST" hist]
  by (simp add: logout_def Let_def split_beta split: sum.splits)

text \<open>
  C1 as stated fails: when the logout call is rejected, \<open>logout\<close> rejects with the
  same error and the identity stays in the session.
\<close>

theorem logout_failure_keeps_identity:
  "logout (always (Response False (Parsed (Obj [(js ''error'', Str (js ''Server down''))]))))
     (\<lparr>user = Obj [(js ''id'', Num (js ''7''))], loading = False\<rparr>, [])
   = (Inl (Error (js ''Server down'')),
      \<lparr>user = Obj [(js ''id'', Num (js ''7''))], loading = False\<rparr>,
      [fetch_request (js ''/auth/logout'') (method_only POST)])
   \<and> \<not> anonymous (fst (snd (logout (always (Response False (Parsed (Obj [(js ''error'', Str (js ''Server down''))]))))
          (\<lparr>user = Obj [(js ''id'', Num (js ''7''))], loading = False\<rparr>, []))))"
  by (simp add: logout_def api_fetch_def send_def always_def anonymous_def js_def Let_def)

text \<open>
  C1, amended. \<open>logout\<close> sends exactly one request, \<^verbatim>\<open>POST /auth/logout\<close>. When the
  service answers with a success status and a body that parses, the user is set to
  \<^verbatim>\<open>null\<close> and nothing else of the session changes; on every other outcome the call
  fails, \<open>logout\<close> fails with the error of the call, and the session is left as it
  was.
\<close>

theorem logout_clears_on_success_only:
  "snd (snd (logout srv (s, hist))) = hist @ [fetch_request (js ''/auth/logout'') (method_only POST)]
   \<and> (if accepted (srv (hist @ [fetch_request (js ''/auth/logout'') (method_only POST)]))
      then fst (logout srv (s, hist)) = Inr () \<and> fst (snd (logout srv (s, hist))) = s\<lparr>user := Null\<rparr>
      else (\<exists>e. fst (api_fetch srv (js ''/auth/logout'') (method_only POST) hist) = Inl e
                \<and> fst (logout srv (s, hist)) = Inl e)
           \<and> fst (snd (logout srv (s, hist))) = s)
   \<and> (fst (api_fetch srv (js ''/auth/logout'') (method_only POST) hist) = Inl e
        \<longrightarrow> fst (logout srv (s, hist)) = Inl e \<and> fst (snd (logout srv (s, hist))) = s)
   \<and> (fst (logout srv (s, hist)) = Inl e
        \<longrightarrow> fst (api_fetch srv (js ''/auth/logout'') (method_only POST) hist) = Inl e)"
  using api_fetch_accepted [of srv "js ''/auth/logout''" "method_only POST" hist]
    api_fetch_rejected [of srv "js ''/auth/logout''" "method_only POST" hist]
  by (auto simp: logout_unfold split: sum.splits)

theorem logout_clears_on_success_only_witness:
  "logout (always (Response True (Parsed (Obj [(js ''message'', Str (js ''Logged out''))]))))
     (\<lparr>user = Obj [(js ''id'', Num (js ''7''))], loading = False\<rparr>, [])
   = (Inr (), \<lparr>user = Null, loading = False\<rparr>, [fetch_request (js ''/auth/logout'') (method_only POST)])
   \<and> fst (api_fetch (always (Response False (Parsed (Obj [(js ''error'', Str (js ''Busy''))]))))
            (js ''/auth/logout'') (method_only POST) []) = Inl (Error (js ''Busy''))
   \<and> logout (always (Response False (Parsed (Obj [(js ''error'', Str (js ''Busy''))]))))
     (\<lparr>user = Obj [(js ''id'', Num (js ''7''))], loading = False\<rparr>, [])
   = (Inl (Error (js ''Busy'')), \<lparr>user = Obj [(js ''id'', Num (js ''7''))], loading = False\<rparr>,
      [fetch_request (js ''/auth/logout'') (method_only POST)])"
proof -
  have f: "fst (api_fetch (always (Response False (Parsed (Obj [(js ''error'', Str (js ''Busy''))]))))
            (js ''/auth/logout'') (method_only POST) []) = Inl (Error (js ''Busy''))"
    by (simp add: api_fetch_def send_def always_def js_def Let_def)
  show ?thesis
    using logout_clears_on_success_only [of "always (Response True (Parsed (Obj [(js ''message'', Str (js ''Logged out''))])))"
        "\<lparr>user = Obj [(js ''id'', Num (js ''7''))], loading = False\<rparr>" "[]" "Error (js ''Busy'')"]
      logout_clears_on_success_only [of "always (Response False (Parsed (Obj [(js ''error'', Str (js ''Busy''))])))"
        "\<lparr>user = Obj [(js ''id'', Num (js ''7''))], loading = False\<rparr>" "[]" "Error (js ''Busy'')"]
      f
    by (simp add: always_def accepted_def prod_eq_iff)
qed

lemma login_unfold:
  "login srv u p (s, hist) =
     (case fst (api_fetch srv (js ''/auth/login'') (login_options u p) hist) of
        Inl e \<Rightarrow> (Inl e, s, hist @ [fetch_request (js ''/auth/login'') (login_options u p)])
      | Inr data \<Rightarrow>
          (case get_prop data (js ''user'') of
             Inl e \<Rightarrow> (Inl e, s, hist @ [fetch_request (js ''/auth/login'') (login_options u p)])
           | Inr usr \<Rightarrow> (Inr data, s\<lparr>user := usr\<rparr>, hist @ [fetch_request (js ''/auth/login'') (login_options u p)])))"
  using api_fetch_history [of srv "js ''/auth/login''" "login_options u p" hist]
  by (simp add: login_def Let_def split_beta split: sum.splits)

text \<open>
  C2. For every username and password, when the call to the login endpoint fails
  with an error, \<open>login\<close> fails with that same error; and whenever \<open>login\<close> fails
  the session is unchanged, so an unset identity stays unset and an anonymous session
  stays anonymous.
\<close>

theorem login_failure_keeps_session:
  "(fst (api_fetch srv (js ''/auth/login'') (login_options u p) hist) = Inl e
      \<longrightarrow> fst (login srv u p (s, hist)) = Inl e)
   \<and> (fst (login srv u p (s, hist)) = Inl e'
      \<longrightarrow> fst (snd (login srv u p (s, hist))) = s
          \<and> (user s = Null \<longrightarrow> user (fst (snd (login srv u p (s, hist)))) = Null)
          \<and> (anonymous s \<longrightarrow> anonymous (fst (snd (login srv u p (s, hist))))))"
  by (auto simp: login_unfold split: sum.splits)

theorem login_failure_keeps_session_witness:
  "login (always (Response False (Parsed (Obj [(js ''error'', Str (js ''Invalid credentials''))]))))
     (js ''alice'') (js ''wrong'') (\<lparr>user = Null, loading = False\<rparr>, [])
   = (Inl (Error (js ''Invalid credentials'')), \<lparr>user = Null, loading = False\<rparr>,
      [fetch_request (js ''/auth/login'') (login_options (js ''alice'') (js ''wrong''))])
   \<and> anonymous \<lparr>user = Null, loading = False\<rparr>"
  using login_failure_keeps_session [of "always (Response False (Parsed (Obj [(js ''error'', Str (js ''Invalid credentials''))])))"
      "js ''alice''" "js ''wrong''" "[]" "Error (js ''Invalid credentials'')" "\<lparr>user = Null, loading = False\<rparr>" "Error (js ''Invalid credentials'')"]
  by (simp add: login_def api_fetch_def send_def always_def anonymous_def js_def Let_def)

section \<open>Feed page: a blank draft\<close>

lemma loadFeed_history:
  "snd (loadFeed srv (f, hist)) = hist @ [fetch_request (js ''/posts/feed'') no_options]"
  using api_fetch_history [of srv "js ''/posts/feed''" no_options hist]
  by (simp add: loadFeed_def Let_def split_beta split: sum.splits)

lemma handleCreatePost_history:
  "trim (newPost f) \<noteq> [] \<Longrightarrow>
   \<exists>rest. snd (handleCreatePost srv (f, hist))
      = hist @ fetch_request (js ''/posts'') (post_options (newPost f)) # rest"
  using api_fetch_history [of srv "js ''/posts''" "post_options (newPost f)" hist]
  by (auto simp: handleCreatePost_def Let_def split_beta loadFeed_history split: sum.splits)

text \<open>
  C9. Submitting a draft that is empty or holds white space only does nothing: the
  feed state and the request history are returned as they were. Any other draft
  sends a request, so the history is unchanged exactly for the blank drafts.
\<close>

theorem blank_post_is_noop:
  "((\<forall>c\<in>set (newPost f). is_ws c) \<longrightarrow> handleCreatePost srv (f, hist) = (f, hist))
   \<and> (snd (handleCreatePost srv (f, hist)) = hist \<longleftrightarrow> (\<forall>c\<in>set (newPost f). is_ws c))"
proof (cases "trim (newPost f) = []")
  case True
  then show ?thesis by (simp add: handleCreatePost_def trim_empty_iff [symmetric])
next
  case False
  from handleCreatePost_history [OF False, of srv hist]
  have "snd (handleCreatePost srv (f, hist)) \<noteq> hist" by auto
  with False show ?thesis by (simp add: trim_empty_iff [symmetric])
qed

theorem blank_post_is_noop_witness:
  "handleCreatePost (always (Response True (Parsed (Obj [(js ''posts'', Arr [])]))))
      (\<lparr>posts = Arr [Obj [(js ''id'', Num (js ''1''))]], newPost = [0x20, 0xA, 0x9], feed_loading = False\<rparr>, [])
   = (\<lparr>posts = Arr [Obj [(js ''id'', Num (js ''1''))]], newPost = [0x20, 0xA, 0x9], feed_loading = False\<rparr>, [])"
  using blank_post_is_noop [of "\<lparr>posts = Arr [Obj [(js ''id'', Num (js ''1''))]], newPost = [0x20, 0xA, 0x9], feed_loading = False\<rparr>"
    "always (Response True (Parsed (Obj [(js ''posts'', Arr [])])))" "[]"]
  by (simp add: is_ws_def)

section \<open>Post: which request the like toggle sends\<close>

lemma get_prop_own_field:
  "get_prop v k = Inr w \<Longrightarrow> w = (case own_field v k of None \<Rightarrow> Undefined | Some x \<Rightarrow> x)"
  by (cases v) (auto simp: own_field_def)




lemma get_prop_total: "\<not> nullish v \<Longrightarrow> \<exists>w. get_prop v k = Inr w"
  by (cases v) (auto simp: nullish_def)





text \<open>
  The render succeeds on the payloads of the data model: for a viewer that is not
  \<^verbatim>\<open>null\<close> and a post whose like collection, when present, is an array without
  \<^verbatim>\<open>null\<close> entries, \<open>isLiked\<close> returns a value.
\<close>

lemma like_by_total:
  assumes "\<not> nullish usr" and "\<not> nullish like"
  shows "\<exists>b. like_by usr like = Inr b"
proof -
  obtain lu where lu: "get_prop like (js ''user'') = Inr lu"
    using get_prop_total [OF assms(2)] by blast
  have "\<exists>lid. opt_prop lu (js ''id'') = Inr lid"
  proof (cases "nullish lu")
    case True
    then show ?thesis by (simp add: opt_prop_def)
  next
    case False
    then show ?thesis using get_prop_total [OF False] by (simp add: opt_prop_def)
  qed
  then obtain lid where lid: "opt_prop lu (js ''id'') = Inr lid" by blast
  obtain uid where uid: "get_prop usr (js ''id'') = Inr uid"
    using get_prop_total [OF assms(1)] by blast
  obtain luid where luid: "get_prop like (js ''userId'') = Inr luid"
    using get_prop_total [OF assms(2)] by blast
  show ?thesis by (auto simp: like_by_def lu lid uid luid)
qed

lemma some_like_total:
  assumes "\<not> nullish usr"
  shows "\<forall>l\<in>set ls. \<not> nullish l \<Longrightarrow> \<exists>b. some_like usr ls = Inr b"
proof (induction ls)
  case Nil
  show ?case by auto
next
  case (Cons l ls)
  from Cons.prems have "\<not> nullish l" by simp
  from like_by_total [OF assms this] obtain b1 where b1: "like_by usr l = Inr b1" by blast
  from Cons have "\<exists>b. some_like usr ls = Inr b" by simp
  with b1 show ?case by (cases b1) auto
qed

lemma isLiked_total:
  assumes "\<not> nullish usr" and "\<not> nullish post"
    and "own_field post (js ''likes'') = None \<or> own_field post (js ''likes'') = Some (Arr ls)"
    and "\<forall>l\<in>set ls. \<not> nullish l"
  shows "\<exists>v. isLiked post usr = Inr v"
proof -
  obtain likes where likes: "get_prop post (js ''likes'') = Inr likes"
    using get_prop_total [OF assms(2)] by blast
  from get_prop_own_field [OF likes] assms(3)
  consider "likes = Undefined" | "likes = Arr ls" by auto
  then show ?thesis
  proof cases
    case 1
    then show ?thesis by (simp add: isLiked_def likes nullish_def)
  next
    case 2
    obtain b where "some_like usr ls = Inr b"
      using some_like_total [OF assms(1,4)] by blast
    with 2 show ?thesis by (simp add: isLiked_def likes nullish_def)
  qed
qed





end
